theory Spec2Isabelle
  imports Complex_Main
begin

section \<open>Data model\<close>

text \<open>
  The dashboard of the rooftop-farm application polls a sensor endpoint, keeps the last
  50 readings in component state and in \<open>localStorage\<close>, derives analytics from them and
  exports them as CSV. JavaScript numbers are modelled as exact reals: \<open>NaN\<close>, the
  infinities and the rounding of IEEE doubles are outside the model. A reading's
  timestamp is the instant it denotes (milliseconds since the epoch), which is what
  \<open>new Date(data.timestamp)\<close> holds; its status is the text the server sent.
\<close>

record reading =
  timestamp :: int
  temperature :: real
  humidity :: real
  soil_moisture :: real
  sunlight_intensity :: real
  status :: string

text \<open>
  The trend arrows of the analytics cards: the source writes the up arrow (U+2191), the
  down arrow (U+2193) and the right arrow (U+2192).
\<close>

datatype trend_arrow = ArrowUp | ArrowDown | ArrowRight

text \<open>
  The text \<open>toFixed\<close> returns. Below \<open>10^21\<close> it is a decimal numeral; from there on the
  language falls back to its default number-to-text conversion, which is kept as the
  number it would print.
\<close>

datatype number_text = Fixed string | Default_text real

record metric_stats =
  avg :: number_text
  stat_min :: number_text
  stat_max :: number_text
  trend :: trend_arrow

record analytics_snapshot =
  an_temperature :: metric_stats
  an_humidity :: metric_stats
  an_soil_moisture :: metric_stats
  an_sunlight_intensity :: metric_stats

text \<open>The state of the \<open>Dashboard\<close> component, together with the browser's \<open>localStorage\<close>.\<close>

record dashboard =
  sensorData :: "reading option"
  loading :: bool
  error :: "string option"
  history :: "reading list"
  analytics :: "analytics_snapshot option"
  localStorage :: "string \<rightharpoonup> string"

section \<open>Built-ins of the language\<close>

text \<open>\<open>xs.slice(-n)\<close>: the last \<open>n\<close> elements, or all of them when there are fewer.\<close>

definition slice_last :: "nat \<Rightarrow> 'a list \<Rightarrow> 'a list" where
  "slice_last n xs = drop (length xs - n) xs"

text \<open>\<open>a || d\<close> on numbers: \<open>d\<close> when \<open>a\<close> is zero.\<close>

definition or_default :: "real \<Rightarrow> real \<Rightarrow> real" where
  "or_default a d = (if a = 0 then d else a)"

text \<open>
  \<open>Math.min\<close> and \<open>Math.max\<close> of at least one argument: the first argument and the
  rest. (With no argument they return the infinities; no call of the source that is
  modelled here passes an empty argument list.)
\<close>

fun Math_min :: "real \<Rightarrow> real list \<Rightarrow> real" where
  "Math_min x [] = x"
| "Math_min x (y # ys) = Math_min (min x y) ys"

fun Math_max :: "real \<Rightarrow> real list \<Rightarrow> real" where
  "Math_max x [] = x"
| "Math_max x (y # ys) = Math_max (max x y) ys"

text \<open>\<open>xs.reduce((a, b) => a + b, 0)\<close>.\<close>

definition reduce_sum :: "real list \<Rightarrow> real" where
  "reduce_sum xs = foldl (\<lambda>a b. a + b) 0 xs"

text \<open>\<open>rows.join(sep)\<close> on texts.\<close>

fun join :: "string \<Rightarrow> string list \<Rightarrow> string" where
  "join sep [] = []"
| "join sep [x] = x"
| "join sep (x # y # ys) = x @ sep @ join sep (y # ys)"

subsection \<open>\<open>Number.prototype.toFixed\<close>\<close>

definition digit_char :: "nat \<Rightarrow> char" where
  "digit_char d = ''0123456789'' ! d"

function nat_digits :: "nat \<Rightarrow> string" where
  "nat_digits n = (if n < 10 then [digit_char n] else nat_digits (n div 10) @ [digit_char (n mod 10)])"
  by pat_completeness auto
termination
  by (relation "measure (\<lambda>n. n)") auto

declare nat_digits.simps [simp del]

text \<open>
  The integer \<open>n\<close> for which \<open>n / 10^f\<close> is closest to the magnitude of \<open>x\<close>, the larger
  one of two.
\<close>

definition toFixed_n :: "nat \<Rightarrow> real \<Rightarrow> nat" where
  "toFixed_n f x = nat \<lfloor>\<bar>x\<bar> * 10 ^ f + 1 / 2\<rfloor>"

text \<open>The digits of \<open>n\<close> with the decimal point \<open>f\<close> places from the right, zero-padded.\<close>

definition place_point :: "nat \<Rightarrow> string \<Rightarrow> string" where
  "place_point f m =
     (if f = 0 then m
      else let m' = (if length m \<le> f then replicate (f + 1 - length m) (CHR ''0'') @ m else m);
               k = length m'
           in take (k - f) m' @ ''.'' @ drop (k - f) m')"

definition toFixed :: "nat \<Rightarrow> real \<Rightarrow> number_text" where
  "toFixed f x =
     (if 10 ^ 21 \<le> \<bar>x\<bar> then Default_text x
      else Fixed ((if x < 0 then ''-'' else '''') @ place_point f (nat_digits (toFixed_n f x))))"

text \<open>
  The number that the decimal text of \<open>toFixed\<close> denotes, in units of \<open>10^-f\<close>: the
  integer \<open>n\<close> with the sign of \<open>x\<close>.
\<close>

definition toFixed_signed :: "nat \<Rightarrow> real \<Rightarrow> int" where
  "toFixed_signed f x = (if x < 0 then - int (toFixed_n f x) else int (toFixed_n f x))"

section \<open>The dashboard\<close>

subsection \<open>Analytics\<close>

text \<open>
  One block of \<open>calculateAnalytics\<close>: the source writes it out four times, for the four
  metrics, with one fraction digit for the first three and none for the sunlight. The
  values are the metric's column of a non-empty history, first value and the rest.
\<close>

definition trend_of :: "real list \<Rightarrow> trend_arrow" where
  "trend_of vs =
     (if length vs > 1 then (if vs ! (length vs - 1) > vs ! 0 then ArrowUp else ArrowDown)
      else ArrowRight)"

definition stats_of :: "nat \<Rightarrow> real \<Rightarrow> real list \<Rightarrow> metric_stats" where
  "stats_of f v vs =
     \<lparr> avg = toFixed f (reduce_sum (v # vs) / real (length (v # vs))),
       stat_min = toFixed f (Math_min v vs),
       stat_max = toFixed f (Math_max v vs),
       trend = trend_of (v # vs) \<rparr>"

text \<open>
  \<open>calculateAnalytics\<close> returns without a call of \<open>setAnalytics\<close> on an empty history
  (\<open>None\<close>), and otherwise sets the snapshot.
\<close>

fun calculateAnalytics :: "reading list \<Rightarrow> analytics_snapshot option" where
  "calculateAnalytics [] = None"
| "calculateAnalytics (d # ds) =
     Some \<lparr> an_temperature = stats_of 1 (temperature d) (map temperature ds),
            an_humidity = stats_of 1 (humidity d) (map humidity ds),
            an_soil_moisture = stats_of 1 (soil_moisture d) (map soil_moisture ds),
            an_sunlight_intensity = stats_of 0 (sunlight_intensity d) (map sunlight_intensity ds) \<rparr>"

definition setAnalytics_from :: "reading list \<Rightarrow> dashboard \<Rightarrow> dashboard" where
  "setAnalytics_from data st =
     (case calculateAnalytics data of None \<Rightarrow> st | Some a \<Rightarrow> st\<lparr>analytics := Some a\<rparr>)"

subsection \<open>Polling\<close>

text \<open>
  One run of \<open>fetchSensorData\<close>. The request either yields the reading of the response
  body, or throws (the network fails, the response is not ok, the body is not JSON); the
  \<open>catch\<close> block then sees the message of the error. \<open>JSON.stringify\<close> is a parameter.
\<close>

datatype fetch_outcome = Fetched reading | Fetch_failed string

definition initial_dashboard :: dashboard where
  "initial_dashboard =
     \<lparr> sensorData = None, loading = True, error = None, history = [], analytics = None,
       localStorage = Map.empty \<rparr>"

definition add_to_history :: "reading list \<Rightarrow> reading \<Rightarrow> reading list" where
  "add_to_history prevHistory data = slice_last 50 (prevHistory @ [data])"

fun fetchSensorData :: "(reading list \<Rightarrow> string) \<Rightarrow> dashboard \<Rightarrow> fetch_outcome \<Rightarrow> dashboard" where
  "fetchSensorData stringify st (Fetched data) =
     (let st1 = st\<lparr>sensorData := Some data, loading := False, error := None\<rparr>;
          newHistory = add_to_history (history st1) data;
          st2 = st1\<lparr>localStorage := (localStorage st1)(''sensorHistory'' \<mapsto> stringify newHistory)\<rparr>;
          st3 = setAnalytics_from newHistory st2
      in st3\<lparr>history := newHistory\<rparr>)"
| "fetchSensorData stringify st (Fetch_failed message) =
     st\<lparr>error := Some message, loading := False\<rparr>"

text \<open>
  The interval timer runs \<open>fetchSensorData\<close> once per tick, whatever the earlier ticks
  did: the \<open>catch\<close> block neither clears the timer nor fetches again.
\<close>

definition poll :: "(reading list \<Rightarrow> string) \<Rightarrow> dashboard \<Rightarrow> fetch_outcome list \<Rightarrow> dashboard" where
  "poll stringify st outcomes = foldl (fetchSensorData stringify) st outcomes"

subsection \<open>Reload at startup\<close>

text \<open>
  The first effect of the component: the stored text under \<open>sensorHistory\<close>, when
  there is one and it is not empty, is parsed inside a \<open>try\<close> block. \<open>JSON.parse\<close> is
  a parameter; it throws a \<open>SyntaxError\<close> (\<open>Inl\<close>, with the message) on a text that
  is not JSON, and the \<open>catch\<close> block only logs it.
\<close>

definition load_history :: "(string \<Rightarrow> string + reading list) \<Rightarrow> dashboard \<Rightarrow> dashboard" where
  "load_history parse st =
     (case localStorage st ''sensorHistory'' of
        None \<Rightarrow> st
      | Some savedHistory \<Rightarrow>
          if savedHistory = [] then st
          else (case parse savedHistory of
                  Inl e \<Rightarrow> st
                | Inr parsed \<Rightarrow> setAnalytics_from parsed (st\<lparr>history := parsed\<rparr>)))"

subsection \<open>CSV export\<close>

text \<open>
  The header cells; the degree sign is the one code unit U+00B0 of the source text.
\<close>

definition csv_headers :: "string list" where
  "csv_headers =
     [''Timestamp'', ''Temperature ('' @ [CHR 0xB0] @ ''C)'', ''Humidity (%)'',
      ''Soil Moisture (%)'', ''Sunlight (lux)'', ''Status'']"

text \<open>
  A row of the export. \<open>join\<close> turns each cell into text: the timestamp is rendered by
  \<open>toLocaleString\<close> in the locale of the browser, the numbers by the language's
  number-to-text conversion; both are parameters.
\<close>

definition csv_row :: "(int \<Rightarrow> string) \<Rightarrow> (real \<Rightarrow> string) \<Rightarrow> reading \<Rightarrow> string list" where
  "csv_row toLocaleString toString h =
     [toLocaleString (timestamp h), toString (temperature h), toString (humidity h),
      toString (soil_moisture h), toString (sunlight_intensity h), status h]"

definition csv_rows :: "(int \<Rightarrow> string) \<Rightarrow> (real \<Rightarrow> string) \<Rightarrow> reading list \<Rightarrow> string list list" where
  "csv_rows toLocaleString toString hist = csv_headers # map (csv_row toLocaleString toString) hist"

text \<open>
  \<open>exportData\<close> returns at once on an empty history (\<open>None\<close>: nothing is produced);
  otherwise the text below is handed to the browser as a download.
\<close>

definition exportData :: "(int \<Rightarrow> string) \<Rightarrow> (real \<Rightarrow> string) \<Rightarrow> reading list \<Rightarrow> string option" where
  "exportData toLocaleString toString hist =
     (if length hist = 0 then None
      else Some (join [CHR 0x0A] (map (join '','') (csv_rows toLocaleString toString hist))))"

subsection \<open>Reading the export back\<close>

text \<open>
  Modelled from the spec: the repository has no CSV reader. The round trip of the spec is
  stated against the reader that comma-joining without quoting admits: lines are split at
  line feeds, cells at commas, the header must be the export's, and the four numeric
  columns are read by position with a number parser, which is a parameter.
\<close>

fun split :: "char \<Rightarrow> string \<Rightarrow> string list" where
  "split c [] = [[]]"
| "split c (x # xs) =
     (if x = c then [] # split c xs
      else (case split c xs of [] \<Rightarrow> [[x]] | y # ys \<Rightarrow> (x # y) # ys))"




section \<open>The sensor panel and the alert banner\<close>

text \<open>
  What \<open>SensorPanel\<close> renders: the loading note, the error box (an empty message counts
  as no error), nothing, or the cards of the reading.
\<close>

datatype panel_view = Loading_view | Error_view string | No_view | Data_view reading

definition SensorPanel :: "reading option \<Rightarrow> bool \<Rightarrow> string option \<Rightarrow> panel_view" where
  "SensorPanel sd ld er =
     (if ld \<and> sd = None then Loading_view
      else if er \<noteq> None \<and> er \<noteq> Some [] then Error_view (the er)
      else (case sd of None \<Rightarrow> No_view | Some d \<Rightarrow> Data_view d))"

text \<open>\<open>getStatusColor\<close> of the sensor panel: the colour class of one displayed value.\<close>

definition getStatusColor :: "real \<Rightarrow> string \<Rightarrow> string" where
  "getStatusColor v type =
     (if type = ''temperature'' then
        (if v < 10 \<or> v > 35 then ''text-red-600''
         else if v < 15 \<or> v > 30 then ''text-yellow-600''
         else ''text-green-600'')
      else if type = ''humidity'' then
        (if v < 20 \<or> v > 90 then ''text-yellow-600'' else ''text-green-600'')
      else if type = ''soil_moisture'' then
        (if v < 30 \<or> v > 80 then ''text-yellow-600'' else ''text-green-600'')
      else if type = ''sunlight'' then
        (if v < 10000 then ''text-yellow-600'' else ''text-green-600'')
      else ''text-gray-600'')"

text \<open>
  The lines of the alert banner of the dashboard. The banner is rendered when the status
  sent by the server is \<open>warning\<close> or \<open>critical\<close>.
\<close>

datatype alert_line = Temperature_line | Soil_too_low | Soil_too_high

definition alert_shown :: "reading \<Rightarrow> bool" where
  "alert_shown sd = (status sd = ''warning'' \<or> status sd = ''critical'')"

definition alert_lines :: "reading \<Rightarrow> alert_line list" where
  "alert_lines sd =
     (if temperature sd < 10 \<or> temperature sd > 35 then [Temperature_line] else [])
     @ (if soil_moisture sd < 30 then [Soil_too_low] else [])
     @ (if soil_moisture sd > 80 then [Soil_too_high] else [])"

section \<open>Status classification\<close>

text \<open>
  Modelled from the spec: the status of a reading is computed by the sensor endpoint of
  the backend, which is not among the sources; the front end only displays the text it
  receives. The spec gives the rule: each metric is classified on its own and the worst
  label wins (critical over warning over optimal); the temperature is critical below 5 or
  above 40, a warning below 10 or above 35; the soil moisture is a warning below 30 or
  above 80; humidity and sunlight do not count.
\<close>

datatype status_label = Optimal | Warning | Critical

definition temperature_status :: "real \<Rightarrow> status_label" where
  "temperature_status t =
     (if t < 5 \<or> t > 40 then Critical else if t < 10 \<or> t > 35 then Warning else Optimal)"

definition soil_moisture_status :: "real \<Rightarrow> status_label" where
  "soil_moisture_status m = (if m < 30 \<or> m > 80 then Warning else Optimal)"

fun worst :: "status_label \<Rightarrow> status_label \<Rightarrow> status_label" where
  "worst Critical _ = Critical"
| "worst _ Critical = Critical"
| "worst Warning _ = Warning"
| "worst _ Warning = Warning"
| "worst Optimal Optimal = Optimal"

definition classify :: "reading \<Rightarrow> status_label" where
  "classify r = worst (temperature_status (temperature r)) (soil_moisture_status (soil_moisture r))"

fun status_text :: "status_label \<Rightarrow> string" where
  "status_text Optimal = ''optimal''"
| "status_text Warning = ''warning''"
| "status_text Critical = ''critical''"

section \<open>The sensor chart\<close>

record point =
  p_value :: real
  p_timestamp :: int

record optimal_range =
  range_min :: real
  range_max :: real
  range_optimal :: real

text \<open>What the chart computes before it draws: the scale and the coordinates.\<close>

record chart =
  maxValue :: real
  minValue :: real
  range :: real
  points :: "(real \<times> real) list"
  optimalY :: real

definition x_divisor :: "point list \<Rightarrow> real" where
  "x_divisor data = or_default (real (length data) - 1) 1"

definition chart_max :: "point \<Rightarrow> point list \<Rightarrow> optimal_range \<Rightarrow> real" where
  "chart_max d ds optimalRange = Math_max (p_value d) (map p_value ds @ [range_max optimalRange])"

definition chart_min :: "point \<Rightarrow> point list \<Rightarrow> optimal_range \<Rightarrow> real" where
  "chart_min d ds optimalRange = Math_min (p_value d) (map p_value ds @ [range_min optimalRange])"

definition chart_range :: "point \<Rightarrow> point list \<Rightarrow> optimal_range \<Rightarrow> real" where
  "chart_range d ds optimalRange = or_default (chart_max d ds optimalRange - chart_min d ds optimalRange) 1"

definition chart_point :: "point list \<Rightarrow> real \<Rightarrow> real \<Rightarrow> nat \<Rightarrow> point \<Rightarrow> real \<times> real" where
  "chart_point data lo rng index p =
     (real index / x_divisor data * 100, 100 - (p_value p - lo) / rng * 80)"

text \<open>
  \<open>SensorChart\<close>: nothing is rendered (\<open>None\<close>) without data or with an empty list.
\<close>

fun SensorChart :: "point list option \<Rightarrow> optimal_range \<Rightarrow> chart option" where
  "SensorChart None optimalRange = None"
| "SensorChart (Some []) optimalRange = None"
| "SensorChart (Some (d # ds)) optimalRange =
     (let hi = chart_max d ds optimalRange;
          lo = chart_min d ds optimalRange;
          rng = chart_range d ds optimalRange
      in Some \<lparr> maxValue = hi, minValue = lo, range = rng,
                points = map (\<lambda>(index, p). chart_point (d # ds) lo rng index p)
                           (zip [0..<length (d # ds)] (d # ds)),
                optimalY = 100 - (range_optimal optimalRange - lo) / rng * 80 \<rparr>)"

section \<open>The plant-health analyser\<close>





section \<open>Sample data\<close>

definition sample_reading :: "nat \<Rightarrow> reading" where
  "sample_reading i =
     \<lparr> timestamp = int i * 5000, temperature = 22, humidity = 60, soil_moisture = 50,
       sunlight_intensity = 45000, status = ''optimal'' \<rparr>"

definition reading_at :: "real \<Rightarrow> real \<Rightarrow> reading" where
  "reading_at t m =
     \<lparr> timestamp = 0, temperature = t, humidity = 60, soil_moisture = m,
       sunlight_intensity = 45000, status = ''optimal'' \<rparr>"

definition sample_parse :: "string \<Rightarrow> string + reading list" where
  "sample_parse s = (if s = ''[]'' then Inr [] else Inl ''Unexpected end of JSON input'')"

definition corrupted_start :: dashboard where
  "corrupted_start = initial_dashboard\<lparr>localStorage := [''sensorHistory'' \<mapsto> ''{not json'']\<rparr>"







definition flat_points :: "point list" where
  "flat_points = [\<lparr>p_value = 22, p_timestamp = 0\<rparr>]"

definition flat_range :: optimal_range where
  "flat_range = \<lparr>range_min = 22, range_max = 22, range_optimal = 22\<rparr>"






section \<open>Predicates of the properties\<close>




section \<open>Properties\<close>

subsection \<open>Built-ins\<close>

lemma length_slice_last: "length (slice_last n xs) \<le> n"
  by (simp add: slice_last_def)

lemma slice_last_append_one:
  "slice_last n (slice_last n xs @ [x]) = slice_last n (xs @ [x])"
proof (cases "length xs \<le> n")
  case True
  then show ?thesis by (simp add: slice_last_def)
next
  case False
  then have "Suc (length xs) - (length xs - n + n) + (length xs - n) = Suc (length xs) - n"
    by arith
  with False show ?thesis by (simp add: slice_last_def)
qed

lemma slice_last_append:
  "slice_last n (slice_last n xs @ ys) = slice_last n (xs @ ys)"
proof (induction ys arbitrary: xs)
  case Nil
  show ?case by (simp add: slice_last_def)
next
  case (Cons y ys)
  have "slice_last n (slice_last n xs @ y # ys) = slice_last n ((slice_last n xs @ [y]) @ ys)"
    by simp
  also have "\<dots> = slice_last n (slice_last n (slice_last n xs @ [y]) @ ys)"
    by (rule Cons.IH [symmetric])
  also have "\<dots> = slice_last n (slice_last n (xs @ [y]) @ ys)"
    by (simp only: slice_last_append_one)
  also have "\<dots> = slice_last n ((xs @ [y]) @ ys)"
    by (rule Cons.IH)
  finally show ?case by simp
qed

lemma Math_min_eq: "Math_min x xs = Min (set (x # xs))"
proof (induction xs arbitrary: x)
  case Nil
  show ?case by simp
next
  case (Cons y ys)
  have "Math_min x (y # ys) = Min (set (min x y # ys))" by (simp add: Cons.IH)
  also have "\<dots> = Min (set (x # y # ys))"
    by (cases "ys = []") (simp_all add: Min_insert min.assoc)
  finally show ?case .
qed

lemma Math_max_eq: "Math_max x xs = Max (set (x # xs))"
proof (induction xs arbitrary: x)
  case Nil
  show ?case by simp
next
  case (Cons y ys)
  have "Math_max x (y # ys) = Max (set (max x y # ys))" by (simp add: Cons.IH)
  also have "\<dots> = Max (set (x # y # ys))"
    by (cases "ys = []") (simp_all add: Max_insert max.assoc)
  finally show ?case .
qed





lemma split_not_Nil: "split c s \<noteq> []"
  by (induction s) (auto split: list.split)

lemma split_no_sep: "c \<notin> set s \<Longrightarrow> split c s = [s]"
  by (induction s) auto

lemma split_append_sep: "c \<notin> set x \<Longrightarrow> split c (x @ c # rest) = x # split c rest"
  by (induction x) (auto split: list.split)

lemma split_join:
  "xs \<noteq> [] \<Longrightarrow> \<forall>x\<in>set xs. c \<notin> set x \<Longrightarrow> split c (join [c] xs) = xs"
proof (induction "[c]" xs rule: join.induct)
  case 1
  then show ?case by simp
next
  case (2 x)
  then show ?case by (simp add: split_no_sep)
next
  case (3 x y ys)
  then show ?case by (simp add: split_append_sep)
qed


lemma length_split_join:
  "xs \<noteq> [] \<Longrightarrow> \<forall>x\<in>set xs. c \<notin> set x \<Longrightarrow> length (split c (join [c] xs)) = length xs"
  by (simp add: split_join)



lemma toFixed_text:
  "\<bar>x\<bar> < 10 ^ 21 \<Longrightarrow>
   toFixed f x = Fixed ((if x < 0 then ''-'' else '''')
                        @ place_point f (nat_digits (nat \<bar>toFixed_signed f x\<bar>)))"
  by (simp add: toFixed_def toFixed_signed_def)

lemma toFixed_signed_close: "\<bar>real_of_int (toFixed_signed f x) - x * 10 ^ f\<bar> \<le> 1 / 2"
proof -
  have n: "real (toFixed_n f x) = real_of_int \<lfloor>\<bar>x\<bar> * 10 ^ f + 1 / 2\<rfloor>"
  proof -
    have "0 \<le> \<bar>x\<bar> * 10 ^ f + 1 / 2" by simp
    then have "0 \<le> \<lfloor>\<bar>x\<bar> * 10 ^ f + 1 / 2\<rfloor>" by (simp only: zero_le_floor)
    then show ?thesis by (simp add: toFixed_n_def)
  qed
  have c: "\<bar>real_of_int \<lfloor>a + 1 / 2\<rfloor> - a\<bar> \<le> 1 / 2" for a :: real
    by linarith
  show ?thesis
  proof (cases "x < 0")
    case True
    define a where "a = \<bar>x\<bar> * 10 ^ f"
    from True have xa: "x * 10 ^ f = - a" by (simp add: a_def)
    have "\<bar>- real_of_int \<lfloor>a + 1 / 2\<rfloor> - (- a)\<bar> = \<bar>real_of_int \<lfloor>a + 1 / 2\<rfloor> - a\<bar>"
      by linarith
    also have "\<dots> \<le> 1 / 2" by (rule c)
    finally show ?thesis
      using True by (simp only: toFixed_signed_def n xa if_True of_int_minus of_int_of_nat_eq a_def)
  next
    case False
    define a where "a = \<bar>x\<bar> * 10 ^ f"
    from False have xa: "x * 10 ^ f = a" by (simp add: a_def)
    have "\<bar>real_of_int \<lfloor>a + 1 / 2\<rfloor> - a\<bar> \<le> 1 / 2" by (rule c)
    then show ?thesis
      using False by (simp only: toFixed_signed_def n xa if_False of_int_of_nat_eq a_def)
  qed
qed

lemma setAnalytics_from_history [simp]: "history (setAnalytics_from d st) = history st"
  by (simp add: setAnalytics_from_def split: option.split)

lemma history_fetched:
  "history (fetchSensorData sf st (Fetched r)) = add_to_history (history st) r"
  by (simp add: Let_def)

lemma history_failed:
  "history (fetchSensorData sf st (Fetch_failed m)) = history st"
  by simp

declare fetchSensorData.simps [simp del]

lemma setAnalytics_from_localStorage [simp]:
  "localStorage (setAnalytics_from d st) = localStorage st"
  by (simp add: setAnalytics_from_def split: option.split)

lemma localStorage_fetched:
  "localStorage (fetchSensorData sf st (Fetched r))
     = (localStorage st)(''sensorHistory'' \<mapsto> sf (add_to_history (history st) r))"
  by (simp add: fetchSensorData.simps Let_def)

lemma poll_Cons: "poll sf st (x # xs) = poll sf (fetchSensorData sf st x) xs"
  by (simp add: poll_def)

lemma poll_Nil: "poll sf st [] = st"
  by (simp add: poll_def)

lemma history_poll_fetched:
  "rs \<noteq> [] \<Longrightarrow> history (poll sf st (map Fetched rs)) = slice_last 50 (history st @ rs)"
proof (induction rs arbitrary: st)
  case Nil
  then show ?case by simp
next
  case (Cons r rs)
  let ?st = "fetchSensorData sf st (Fetched r)"
  have step: "poll sf st (map Fetched (r # rs)) = poll sf ?st (map Fetched rs)"
    by (simp add: poll_Cons)
  show ?case
  proof (cases "rs = []")
    case True
    then show ?thesis
      by (simp add: poll_Cons poll_Nil history_fetched add_to_history_def)
  next
    case False
    then have "history (poll sf ?st (map Fetched rs)) = slice_last 50 (history ?st @ rs)"
      by (rule Cons.IH)
    also have "\<dots> = slice_last 50 (slice_last 50 (history st @ [r]) @ rs)"
      by (simp only: history_fetched add_to_history_def)
    also have "\<dots> = slice_last 50 ((history st @ [r]) @ rs)"
      by (rule slice_last_append)
    finally show ?thesis by (simp add: poll_Cons)
  qed
qed

lemma poll_length:
  "length (history (poll sf st (map Fetched rs))) \<le> max 50 (length (history st))"
  by (cases "rs = []") (simp_all add: history_poll_fetched length_slice_last poll_Nil le_max_iff_disj)

subsection \<open>The history buffer\<close>

text \<open>
  Claim C1. Every successful fetch leaves at most 50 readings in the history, whatever
  was there before: the new history is the last 50 of the old one with the new reading
  appended, so a full buffer loses exactly its oldest reading and a buffer that is not
  full loses none. After 51 successful fetches of distinct readings from the initial
  state the buffer holds 50 readings, the readings 2 to 51 in their order: the first is
  gone and the 51st is there.
\<close>

theorem history_bounded_fifo:
  "length (history (fetchSensorData sf st (Fetched r))) \<le> 50
   \<and> history (fetchSensorData sf st (Fetched r)) = slice_last 50 (history st @ [r])
   \<and> (length (history st) = 50 \<longrightarrow>
        history (fetchSensorData sf st (Fetched r)) = tl (history st) @ [r])
   \<and> (length (history st) < 50 \<longrightarrow>
        history (fetchSensorData sf st (Fetched r)) = history st @ [r])
   \<and> (length rs = 51 \<and> distinct rs \<longrightarrow>
        length (history (poll sf initial_dashboard (map Fetched rs))) = 50
        \<and> rs ! 0 \<notin> set (history (poll sf initial_dashboard (map Fetched rs)))
        \<and> rs ! 50 \<in> set (history (poll sf initial_dashboard (map Fetched rs)))
        \<and> history (poll sf initial_dashboard (map Fetched rs)) = tl rs)"
proof (intro conjI impI)
  show "length (history (fetchSensorData sf st (Fetched r))) \<le> 50"
    by (simp only: history_fetched add_to_history_def length_slice_last)
  show "history (fetchSensorData sf st (Fetched r)) = slice_last 50 (history st @ [r])"
    by (simp only: history_fetched add_to_history_def)
  show "history (fetchSensorData sf st (Fetched r)) = tl (history st) @ [r]"
    if "length (history st) = 50"
  proof -
    from that have "history st \<noteq> []" by auto
    with that show ?thesis
      by (simp add: history_fetched add_to_history_def slice_last_def drop_Suc)
  qed
  show "history (fetchSensorData sf st (Fetched r)) = history st @ [r]"
    if "length (history st) < 50"
    using that by (simp add: history_fetched add_to_history_def slice_last_def)
next
  assume a: "length rs = 51 \<and> distinct rs"
  then have ne: "rs \<noteq> []" by auto
  have h: "history (poll sf initial_dashboard (map Fetched rs)) = tl rs"
    using a by (simp add: history_poll_fetched [OF ne] initial_dashboard_def slice_last_def drop_Suc)
  show "history (poll sf initial_dashboard (map Fetched rs)) = tl rs" by (rule h)
  show "length (history (poll sf initial_dashboard (map Fetched rs))) = 50"
    using a unfolding h by simp
  obtain x xs where rs: "rs = x # xs" using ne by (cases rs) auto
  show "rs ! 0 \<notin> set (history (poll sf initial_dashboard (map Fetched rs)))"
    using a unfolding h by (simp add: rs)
  have "rs ! 50 = xs ! 49" by (simp add: rs)
  moreover have "length xs = 50" using a by (simp add: rs)
  ultimately show "rs ! 50 \<in> set (history (poll sf initial_dashboard (map Fetched rs)))"
    unfolding h by (simp add: rs)
qed

theorem history_bounded_fifo_witness:
  "length (history (fetchSensorData (\<lambda>h. []) initial_dashboard (Fetched (sample_reading 0)))) \<le> 50
   \<and> history (fetchSensorData (\<lambda>h. []) initial_dashboard (Fetched (sample_reading 0))) = [sample_reading 0]
   \<and> length (map sample_reading [0..<51]) = 51 \<and> distinct (map sample_reading [0..<51])
   \<and> length (history (poll (\<lambda>h. []) initial_dashboard (map Fetched (map sample_reading [0..<51])))) = 50
   \<and> sample_reading 0 \<notin> set (history (poll (\<lambda>h. []) initial_dashboard (map Fetched (map sample_reading [0..<51]))))
   \<and> sample_reading 50 \<in> set (history (poll (\<lambda>h. []) initial_dashboard (map Fetched (map sample_reading [0..<51]))))"
proof -
  let ?rs = "map sample_reading [0..<51]"
  have d: "distinct ?rs"
    by (simp add: distinct_map inj_on_def sample_reading_def)
  have l: "length ?rs = 51" by simp
  have i: "length (history initial_dashboard) < 50" by (simp add: initial_dashboard_def)
  have e: "history initial_dashboard @ [sample_reading 0] = [sample_reading 0]"
    by (simp add: initial_dashboard_def)
  have n0: "?rs ! 0 = sample_reading 0"
    by (simp only: nth_map_upt) simp
  have n50: "?rs ! 50 = sample_reading 50"
    by (simp only: nth_map_upt) simp
  note t = history_bounded_fifo [of "\<lambda>h. []" initial_dashboard "sample_reading 0" ?rs]
  from t have a: "length (history (fetchSensorData (\<lambda>h. []) initial_dashboard (Fetched (sample_reading 0)))) \<le> 50"
    by (rule conjunct1)
  from t i have "history (fetchSensorData (\<lambda>h. []) initial_dashboard (Fetched (sample_reading 0)))
      = history initial_dashboard @ [sample_reading 0]"
    by blast
  then have b: "history (fetchSensorData (\<lambda>h. []) initial_dashboard (Fetched (sample_reading 0))) = [sample_reading 0]"
    by (simp only: e)
  from t l d have c: "length (history (poll (\<lambda>h. []) initial_dashboard (map Fetched ?rs))) = 50
        \<and> ?rs ! 0 \<notin> set (history (poll (\<lambda>h. []) initial_dashboard (map Fetched ?rs)))
        \<and> ?rs ! 50 \<in> set (history (poll (\<lambda>h. []) initial_dashboard (map Fetched ?rs)))"
    by blast
  from a b l d c show ?thesis by (simp only: n0 n50) blast
qed

subsection \<open>A failed fetch\<close>

lemma fetch_failed_state:
  "fetchSensorData sf st (Fetch_failed m) = st\<lparr>error := Some m, loading := False\<rparr>"
  by (simp add: fetchSensorData.simps)

lemma poll_failures_frame:
  "sensorData (poll sf st (map Fetch_failed ms)) = sensorData st
   \<and> history (poll sf st (map Fetch_failed ms)) = history st
   \<and> analytics (poll sf st (map Fetch_failed ms)) = analytics st
   \<and> localStorage (poll sf st (map Fetch_failed ms)) = localStorage st"
proof (induction ms arbitrary: st)
  case Nil
  show ?case by (simp add: poll_Nil)
next
  case (Cons m ms)
  have "poll sf st (map Fetch_failed (m # ms))
      = poll sf (st\<lparr>error := Some m, loading := False\<rparr>) (map Fetch_failed ms)"
    by (simp add: poll_Cons fetch_failed_state)
  then show ?case by (simp add: Cons.IH)
qed

text \<open>
  After a failed fetch the panel shows the error box in place of its cards; the reading
  itself stays in the state, and the rest of the dashboard goes on showing it.
\<close>

lemma sensor_panel_after_failure:
  "m \<noteq> [] \<Longrightarrow>
   SensorPanel (sensorData (fetchSensorData sf st (Fetch_failed m)))
     (loading (fetchSensorData sf st (Fetch_failed m)))
     (error (fetchSensorData sf st (Fetch_failed m))) = Error_view m"
  by (simp add: fetch_failed_state SensorPanel_def)

text \<open>
  The first fetch of a session fails: the error is set, and the loading flag, which was
  set, is cleared as well. So a failed fetch can change more than the error.
\<close>

theorem fetch_failure_only_error_counterexample:
  "fetchSensorData (\<lambda>h. []) initial_dashboard (Fetch_failed ''Failed to fetch sensor data'')
     \<noteq> initial_dashboard\<lparr>error := Some ''Failed to fetch sensor data''\<rparr>
   \<and> loading (fetchSensorData (\<lambda>h. []) initial_dashboard (Fetch_failed ''Failed to fetch sensor data''))
     \<noteq> loading initial_dashboard"
  by (simp add: fetch_failed_state initial_dashboard_def)

text \<open>
  Claim C8, amended. A failed fetch sets the error to the message and clears the loading
  flag, and changes nothing else: the sensor data, the history, the analytics snapshot
  and the stored history are the ones before. When the loading flag was already clear
  (some fetch has completed before), the error is all that changes. The next tick runs
  as any other: the failure starts no fetch of its own, and the first fetch that succeeds
  after any number of failures appends its reading to the history as it was, shows the
  reading and clears the error.
\<close>

theorem fetch_failure_frame:
  "fetchSensorData sf st (Fetch_failed m) = st\<lparr>error := Some m, loading := False\<rparr>
   \<and> sensorData (fetchSensorData sf st (Fetch_failed m)) = sensorData st
   \<and> history (fetchSensorData sf st (Fetch_failed m)) = history st
   \<and> analytics (fetchSensorData sf st (Fetch_failed m)) = analytics st
   \<and> localStorage (fetchSensorData sf st (Fetch_failed m)) = localStorage st
   \<and> error (fetchSensorData sf st (Fetch_failed m)) = Some m
   \<and> (\<not> loading st \<longrightarrow> fetchSensorData sf st (Fetch_failed m) = st\<lparr>error := Some m\<rparr>)
   \<and> poll sf st (Fetch_failed m # outcomes) = poll sf (st\<lparr>error := Some m, loading := False\<rparr>) outcomes
   \<and> history (poll sf st (map Fetch_failed ms @ [Fetched r])) = add_to_history (history st) r
   \<and> sensorData (poll sf st (map Fetch_failed ms @ [Fetched r])) = Some r
   \<and> error (poll sf st (map Fetch_failed ms @ [Fetched r])) = None"
proof -
  have s: "fetchSensorData sf st (Fetch_failed m) = st\<lparr>error := Some m, loading := False\<rparr>"
    by (rule fetch_failed_state)
  have l: "fetchSensorData sf st (Fetch_failed m) = st\<lparr>error := Some m\<rparr>" if "\<not> loading st"
    using that by (simp add: s)
  have p: "poll sf st (Fetch_failed m # outcomes)
      = poll sf (st\<lparr>error := Some m, loading := False\<rparr>) outcomes"
    by (simp add: poll_Cons s)
  let ?st = "poll sf st (map Fetch_failed ms)"
  have a: "poll sf st (map Fetch_failed ms @ [Fetched r]) = fetchSensorData sf ?st (Fetched r)"
    by (simp add: poll_def)
  have h: "history (poll sf st (map Fetch_failed ms @ [Fetched r])) = add_to_history (history st) r"
    by (simp add: a history_fetched poll_failures_frame)
  have d: "sensorData (poll sf st (map Fetch_failed ms @ [Fetched r])) = Some r"
    by (simp add: a fetchSensorData.simps Let_def setAnalytics_from_def split: option.split)
  have e: "error (poll sf st (map Fetch_failed ms @ [Fetched r])) = None"
    by (simp add: a fetchSensorData.simps Let_def setAnalytics_from_def split: option.split)
  from s l p h d e show ?thesis by simp
qed

theorem fetch_failure_frame_witness:
  "\<not> loading (fetchSensorData (\<lambda>h. []) initial_dashboard (Fetched (sample_reading 0)))
   \<and> fetchSensorData (\<lambda>h. []) (fetchSensorData (\<lambda>h. []) initial_dashboard (Fetched (sample_reading 0)))
        (Fetch_failed ''Failed to fetch sensor data'')
      = (fetchSensorData (\<lambda>h. []) initial_dashboard (Fetched (sample_reading 0)))
          \<lparr>error := Some ''Failed to fetch sensor data''\<rparr>
   \<and> history (fetchSensorData (\<lambda>h. []) (fetchSensorData (\<lambda>h. []) initial_dashboard (Fetched (sample_reading 0)))
        (Fetch_failed ''Failed to fetch sensor data'')) = [sample_reading 0]"
proof -
  let ?st = "fetchSensorData (\<lambda>h. []) initial_dashboard (Fetched (sample_reading 0))"
  have l: "\<not> loading ?st"
    by (simp add: fetchSensorData.simps Let_def setAnalytics_from_def split: option.split)
  have h: "history ?st = [sample_reading 0]"
    by (simp add: history_fetched add_to_history_def slice_last_def initial_dashboard_def)
  note t = fetch_failure_frame [of "\<lambda>h. []" ?st "''Failed to fetch sensor data''" "[]"]
  from t l have "fetchSensorData (\<lambda>h. []) ?st (Fetch_failed ''Failed to fetch sensor data'')
      = ?st\<lparr>error := Some ''Failed to fetch sensor data''\<rparr>"
    by blast
  moreover from t have "history (fetchSensorData (\<lambda>h. []) ?st (Fetch_failed ''Failed to fetch sensor data'')) = history ?st"
    by blast
  ultimately show ?thesis using l h by simp
qed

subsection \<open>Analytics\<close>






lemma trend_of_cases:
  "(trend_of vs = ArrowUp \<longleftrightarrow> length vs > 1 \<and> last vs > hd vs)
   \<and> (trend_of vs = ArrowDown \<longleftrightarrow> length vs > 1 \<and> last vs \<le> hd vs)
   \<and> (trend_of vs = ArrowRight \<longleftrightarrow> length vs \<le> 1)"
proof (cases vs)
  case Nil
  then show ?thesis by (simp add: trend_of_def)
next
  case (Cons v ws)
  then have "vs ! (length vs - 1) = last vs" "vs ! 0 = hd vs"
    by (simp_all add: last_conv_nth)
  then show ?thesis by (auto simp: trend_of_def)
qed

text \<open>
  Claim C2 at a history of two readings with the same temperature: the claim asks for a
  flat trend, and the snapshot shows the down arrow. The code tests only whether the
  newest value is greater than the oldest, and gives the down arrow otherwise.
\<close>

theorem trend_equal_endpoints_is_down:
  "map_option (\<lambda>a. trend (an_temperature a)) (calculateAnalytics [reading_at 22 50, reading_at 22 50])
     = Some ArrowDown
   \<and> trend_of [22, 22] = ArrowDown"
  by (simp add: stats_of_def trend_of_def reading_at_def)

subsection \<open>Status classification\<close>

text \<open>
  Claim C3, on the rule of the spec. The temperature is critical exactly below 5 or above
  40, a warning exactly in the rest of the range below 10 or above 35, and optimal from
  10 to 35; the soil moisture is a warning exactly below 30 or above 80. A soil moisture
  of 25 is a warning for the metric; a reading with it is never optimal, and it is
  classified as a warning whenever its temperature is not critical.
\<close>

theorem classify_thresholds:
  "(temperature_status t = Critical \<longleftrightarrow> t < 5 \<or> t > 40)
   \<and> (temperature_status t = Warning \<longleftrightarrow> (t < 10 \<or> t > 35) \<and> 5 \<le> t \<and> t \<le> 40)
   \<and> (temperature_status t = Optimal \<longleftrightarrow> 10 \<le> t \<and> t \<le> 35)
   \<and> (soil_moisture_status m = Warning \<longleftrightarrow> m < 30 \<or> m > 80)
   \<and> (soil_moisture_status m = Optimal \<longleftrightarrow> 30 \<le> m \<and> m \<le> 80)
   \<and> soil_moisture_status 25 = Warning
   \<and> (soil_moisture r = 25 \<longrightarrow> classify r \<noteq> Optimal)
   \<and> (soil_moisture r = 25 \<and> 5 \<le> temperature r \<and> temperature r \<le> 40 \<longrightarrow> classify r = Warning)"
proof -
  have w: "worst x Warning = (if x = Critical then Critical else Warning)" for x
    by (cases x) simp_all
  show ?thesis
    by (auto simp: temperature_status_def soil_moisture_status_def classify_def w)
qed

theorem classify_thresholds_witness:
  "soil_moisture (reading_at 22 25) = 25 \<and> 5 \<le> temperature (reading_at 22 25)
   \<and> temperature (reading_at 22 25) \<le> 40 \<and> classify (reading_at 22 25) = Warning
   \<and> status_text (classify (reading_at 22 25)) = ''warning''"
proof -
  have h: "soil_moisture (reading_at 22 25) = 25 \<and> 5 \<le> temperature (reading_at 22 25)
      \<and> temperature (reading_at 22 25) \<le> 40"
    by (simp add: reading_at_def)
  with classify_thresholds [of _ _ "reading_at 22 25"] have "classify (reading_at 22 25) = Warning"
    by blast
  with h show ?thesis by simp
qed

lemma alert_lines_match_thresholds:
  "(Temperature_line \<in> set (alert_lines sd) \<longleftrightarrow> temperature_status (temperature sd) \<noteq> Optimal)
   \<and> (Soil_too_low \<in> set (alert_lines sd) \<or> Soil_too_high \<in> set (alert_lines sd)
        \<longleftrightarrow> soil_moisture_status (soil_moisture sd) = Warning)
   \<and> (alert_lines sd = [] \<longleftrightarrow> classify sd = Optimal)"
proof -
  have w: "worst x y = Optimal \<longleftrightarrow> x = Optimal \<and> y = Optimal" for x y
    by (cases x; cases y) simp_all
  show ?thesis
    by (auto simp: alert_lines_def temperature_status_def soil_moisture_status_def classify_def w)
qed

lemma getStatusColor_bands:
  "(getStatusColor m ''soil_moisture'' = ''text-yellow-600'' \<longleftrightarrow> m < 30 \<or> m > 80)
   \<and> (getStatusColor t ''temperature'' = ''text-red-600'' \<longleftrightarrow> t < 10 \<or> t > 35)
   \<and> (getStatusColor t ''temperature'' = ''text-yellow-600'' \<longleftrightarrow> (t < 15 \<or> t > 30) \<and> 10 \<le> t \<and> t \<le> 35)"
  by (auto simp: getStatusColor_def)

subsection \<open>CSV export\<close>







lemma export_follows_arrival:
  assumes "rs \<noteq> []" and "length rs \<le> 50"
  shows "exportData lf nf (history (poll sf initial_dashboard (map Fetched rs)))
     = Some (join [CHR 0x0A] (map (join '','') (csv_headers # map (csv_row lf nf) rs)))"
proof -
  have "history (poll sf initial_dashboard (map Fetched rs)) = rs"
    using assms by (simp add: history_poll_fetched initial_dashboard_def slice_last_def)
  with assms(1) show ?thesis by (simp add: exportData_def csv_rows_def)
qed






subsection \<open>Reload at startup\<close>

text \<open>
  Claim C7. When the stored history does not parse, the reload leaves the state as it
  was: the \<open>catch\<close> block handles the error. At startup the history is then
  empty and there is no analytics snapshot; the next successful fetch starts the history
  with its reading and overwrites the stored text.
\<close>

theorem load_history_malformed:
  "localStorage st ''sensorHistory'' = Some blob \<and> parse blob = Inl e \<longrightarrow>
     load_history parse st = st
     \<and> (history st = [] \<and> analytics st = None \<longrightarrow>
          history (load_history parse st) = [] \<and> analytics (load_history parse st) = None
          \<and> calculateAnalytics (history (load_history parse st)) = None
          \<and> history (fetchSensorData sf (load_history parse st) (Fetched r)) = [r]
          \<and> localStorage (fetchSensorData sf (load_history parse st) (Fetched r)) ''sensorHistory''
              = Some (sf [r]))"
proof (intro impI conjI)
  assume a: "localStorage st ''sensorHistory'' = Some blob \<and> parse blob = Inl e"
  then show u: "load_history parse st = st" by (simp add: load_history_def)
  assume i: "history st = [] \<and> analytics st = None"
  with u show "history (load_history parse st) = []" and "analytics (load_history parse st) = None"
    by simp_all
  from u i show "calculateAnalytics (history (load_history parse st)) = None" by simp
  from i have n: "add_to_history (history st) r = [r]"
    by (simp add: add_to_history_def slice_last_def)
  show "history (fetchSensorData sf (load_history parse st) (Fetched r)) = [r]"
    by (simp add: u history_fetched n)
  show "localStorage (fetchSensorData sf (load_history parse st) (Fetched r)) ''sensorHistory''
              = Some (sf [r])"
    by (simp add: u localStorage_fetched n)
qed

theorem load_history_malformed_witness:
  "localStorage corrupted_start ''sensorHistory'' = Some ''{not json''
   \<and> sample_parse ''{not json'' = Inl ''Unexpected end of JSON input''
   \<and> history corrupted_start = [] \<and> analytics corrupted_start = None
   \<and> load_history sample_parse corrupted_start = corrupted_start
   \<and> history (load_history sample_parse corrupted_start) = []
   \<and> analytics (load_history sample_parse corrupted_start) = None"
proof -
  have h: "localStorage corrupted_start ''sensorHistory'' = Some ''{not json''
      \<and> sample_parse ''{not json'' = Inl ''Unexpected end of JSON input''"
    by (simp add: corrupted_start_def sample_parse_def)
  have i: "history corrupted_start = [] \<and> analytics corrupted_start = None"
    by (simp add: corrupted_start_def initial_dashboard_def)
  from load_history_malformed [of corrupted_start "''{not json''" sample_parse
      "''Unexpected end of JSON input''"] h i
  show ?thesis by simp
qed

subsection \<open>The sensor chart\<close>

lemma or_default_nonzero: "d \<noteq> 0 \<Longrightarrow> or_default a d \<noteq> 0"
  by (simp add: or_default_def)

lemma x_divisor_pos: "data \<noteq> [] \<Longrightarrow> 0 < x_divisor data"
  by (cases data) (auto simp: x_divisor_def or_default_def)

lemma chart_min_le_max: "chart_min d ds r \<le> chart_max d ds r"
proof -
  have "chart_min d ds r \<le> p_value d"
    by (simp add: chart_min_def Math_min_eq del: Min_insert)
  also have "p_value d \<le> chart_max d ds r"
    by (simp add: chart_max_def Math_max_eq del: Max_insert)
  finally show ?thesis .
qed

lemma chart_range_pos: "0 < chart_range d ds r"
  using chart_min_le_max [of d ds r] by (simp add: chart_range_def or_default_def)

text \<open>
  Claim C9. Without data and with an empty list the chart renders nothing. With data it
  is computed, and both divisors differ from zero: the divisor of the x coordinates
  (which is 1 for a single point) and the value range, which is positive (and 1 when
  all values and both bounds of the optimal range are equal).
\<close>

theorem sensor_chart_divisors_nonzero:
  "SensorChart None r = None
   \<and> SensorChart (Some []) r = None
   \<and> (data \<noteq> [] \<longrightarrow>
        (\<exists>c. SensorChart (Some data) r = Some c
           \<and> range c = chart_range (hd data) (tl data) r
           \<and> range c \<noteq> 0 \<and> 0 < range c
           \<and> x_divisor data \<noteq> 0
           \<and> points c = map (\<lambda>(index, p). chart_point data (minValue c) (range c) index p)
                           (zip [0..<length data] data)
           \<and> length (points c) = length data))
   \<and> (length data = 1 \<longrightarrow> x_divisor data = 1)
   \<and> (data \<noteq> [] \<and> (\<forall>p \<in> set data. p_value p = v) \<and> range_min r = v \<and> range_max r = v \<longrightarrow>
        chart_range (hd data) (tl data) r = 1)"
proof (intro conjI impI)
  show "SensorChart None r = None" by simp
  show "SensorChart (Some []) r = None" by simp
  show "x_divisor data = 1" if "length data = 1"
    using that by (simp add: x_divisor_def or_default_def)
next
  assume "data \<noteq> []"
  then obtain d ds where d: "data = d # ds" by (cases data) auto
  have "0 < x_divisor (d # ds)" by (rule x_divisor_pos) simp
  moreover have "0 < chart_range d ds r" by (rule chart_range_pos)
  ultimately show "\<exists>c. SensorChart (Some data) r = Some c
           \<and> range c = chart_range (hd data) (tl data) r
           \<and> range c \<noteq> 0 \<and> 0 < range c
           \<and> x_divisor data \<noteq> 0
           \<and> points c = map (\<lambda>(index, p). chart_point data (minValue c) (range c) index p)
                           (zip [0..<length data] data)
           \<and> length (points c) = length data"
    by (simp add: d Let_def del: upt.simps upt_Suc)
next
  assume a: "data \<noteq> [] \<and> (\<forall>p \<in> set data. p_value p = v) \<and> range_min r = v \<and> range_max r = v"
  then obtain d ds where d: "data = d # ds" by (cases data) auto
  with a have s: "set (p_value d # map p_value ds @ [v]) = {v}" by auto
  have "chart_max d ds r = v"
    using a by (simp only: chart_max_def Math_max_eq s) simp
  moreover have "chart_min d ds r = v"
    using a by (simp only: chart_min_def Math_min_eq s) simp
  ultimately show "chart_range (hd data) (tl data) r = 1"
    by (simp add: d chart_range_def or_default_def)
qed

theorem sensor_chart_divisors_nonzero_witness:
  "flat_points \<noteq> [] \<and> length flat_points = 1 \<and> map p_value flat_points = [22]
   \<and> range_min flat_range = 22 \<and> range_max flat_range = 22
   \<and> x_divisor flat_points = 1
   \<and> chart_range (hd flat_points) (tl flat_points) flat_range = 1
   \<and> (\<exists>c. SensorChart (Some flat_points) flat_range = Some c \<and> range c = 1
         \<and> length (points c) = 1)"
proof -
  have h: "flat_points \<noteq> [] \<and> (\<forall>p \<in> set flat_points. p_value p = 22)
      \<and> range_min flat_range = 22 \<and> range_max flat_range = 22"
    by (simp add: flat_points_def flat_range_def)
  have l: "length flat_points = 1" by (simp add: flat_points_def)
  note t = sensor_chart_divisors_nonzero [of flat_range flat_points 22]
  from t l have x: "x_divisor flat_points = 1" by blast
  from t h have r: "chart_range (hd flat_points) (tl flat_points) flat_range = 1" by blast
  from t h obtain c where c: "SensorChart (Some flat_points) flat_range = Some c"
    "range c = chart_range (hd flat_points) (tl flat_points) flat_range"
    "length (points c) = length flat_points"
    by blast
  from c(2) r have rc: "range c = 1" by simp
  from c(3) l have "length (points c) = 1" by simp
  with c(1) rc have "\<exists>c. SensorChart (Some flat_points) flat_range = Some c \<and> range c = 1
      \<and> length (points c) = 1"
    by blast
  moreover have "map p_value flat_points = [22]" by (simp add: flat_points_def)
  ultimately show ?thesis using h l x r by blast
qed

subsection \<open>The plant-health history\<close>




end
